theory Spec2Isabelle
  imports Main "HOL-Library.Word" "HOL-Library.AList"
begin

section \<open>Python values\<close>

text \<open>
  The honeypot's request handler, \<^verbatim>\<open>srv/web/isc_agent/__main__.py\<close>, embedded
  function by function. Exceptions are values of \<open>py_error\<close>; a function that can raise
  returns \<open>py_error + 'a\<close> with \<open>Inl\<close> for the exception.

  Text is \<open>string\<close>: a \<open>char\<close> stands for the code point of the same number, so the
  model covers Python strings whose code points are below 256. Bytes are \<open>8 word\<close>.
\<close>

datatype py_error =
    TypeError | IndexError | ValueError | ReError
  | UnicodeDecodeError | BrokenPipeError | ConnectionResetError

type_synonym byte = "8 word"

text \<open>\<^verbatim>\<open>str.encode('utf-8')\<close>: one byte below 128, two bytes from 128 to 255.\<close>

definition utf8_char :: "char \<Rightarrow> byte list" where
  "utf8_char c =
     (let n = (of_char c :: nat)
      in if n < 128 then [of_nat n] else [of_nat (192 + n div 64), of_nat (128 + n mod 64)])"

definition encode_utf8 :: "string \<Rightarrow> byte list" where
  "encode_utf8 s = concat (map utf8_char s)"

text \<open>\<^verbatim>\<open>str(n)\<close> for a length: the decimal digits, most significant first.\<close>

definition digit_char :: "nat \<Rightarrow> char" where
  "digit_char d = char_of (48 + d)"

function str_nat :: "nat \<Rightarrow> string" where
  "str_nat n = (if n < 10 then [digit_char n] else str_nat (n div 10) @ [digit_char (n mod 10)])"
  by pat_completeness auto
termination
  by (relation "measure (\<lambda>n. n)") auto

section \<open>The template engine\<close>

text \<open>
  \<^verbatim>\<open>\w\<close> of a \<^verbatim>\<open>str\<close> pattern: the characters for which \<^verbatim>\<open>isalnum()\<close> holds, and the
  underscore; below 256 these are the ASCII letters and digits, the underscore, and the
  Latin-1 letters, superscript digits and fractions.
\<close>

definition is_word :: "char \<Rightarrow> bool" where
  "is_word c =
     (let n = (of_char c :: nat)
      in (48 \<le> n \<and> n \<le> 57) \<or> (65 \<le> n \<and> n \<le> 90) \<or> n = 95 \<or> (97 \<le> n \<and> n \<le> 122)
         \<or> n = 170 \<or> n = 178 \<or> n = 179 \<or> n = 181 \<or> n = 185 \<or> n = 186
         \<or> n = 188 \<or> n = 189 \<or> n = 190
         \<or> (192 \<le> n \<and> n \<le> 214) \<or> (216 \<le> n \<and> n \<le> 246) \<or> 248 \<le> n)"

text \<open>The literal text of the marker of a tag: \<^verbatim>\<open>*{*name*}*\<close>.\<close>

definition marker :: "string \<Rightarrow> string" where
  "marker name = ''*{*'' @ name @ ''*}*''"

text \<open>
  One attempt of the pattern \<^verbatim>\<open>\*{\*(\w+)\*}\*\<close> at the start of \<open>s\<close>: the captured
  name and the text after the match. \<^verbatim>\<open>\w+\<close> is greedy and \<^verbatim>\<open>*\<close> is not a word
  character, so the name is the longest run of word characters.
\<close>

definition match_marker :: "string \<Rightarrow> (string \<times> string) option" where
  "match_marker s =
     (if take 3 s = ''*{*'' then
        (let name = takeWhile is_word (drop 3 s);
             rest = dropWhile is_word (drop 3 s)
         in if name \<noteq> [] \<and> take 3 rest = ''*}*'' then Some (name, drop 3 rest) else None)
      else None)"

text \<open>
  \<^verbatim>\<open>re.findall(r"\*{\*(\w+)\*}\*", text_element)\<close>: the names of the matches found from
  left to right, the search resuming after each match.
\<close>

function findall :: "string \<Rightarrow> string list" where
  "findall [] = []"
| "findall (c # cs) =
     (case match_marker (c # cs) of
        Some (name, rest) \<Rightarrow> name # findall rest
      | None \<Rightarrow> findall cs)"
  by pat_completeness auto
termination
proof (relation "measure length")
  show "wf (measure length)" by simp
next
  fix c :: char and cs x2 x y
  assume m: "match_marker (c # cs) = Some x2" and x: "(x, y) = x2"
  have "length (drop 3 (dropWhile is_word (drop 3 (c # cs)))) \<le> length cs"
    using length_dropWhile_le [of is_word "drop 3 (c # cs)"] by simp
  with m x show "(y, c # cs) \<in> measure length"
    by (auto simp: match_marker_def Let_def split: if_splits)
next
  fix c :: char and cs
  show "(cs, c # cs) \<in> measure length" by simp
qed

text \<open>
  \<^verbatim>\<open>re.sub(tag, markup, text_element)\<close> once the replacement has been expanded: \<open>pat\<close> is
  the literal text the pattern matches. Each match, found from left to right, is replaced
  and the search resumes after it.
\<close>

function sub_literal :: "string \<Rightarrow> string \<Rightarrow> string \<Rightarrow> string" where
  "sub_literal pat repl [] = []"
| "sub_literal pat repl (c # cs) =
     (if pat \<noteq> [] \<and> take (length pat) (c # cs) = pat
      then repl @ sub_literal pat repl (drop (length pat) (c # cs))
      else c # sub_literal pat repl cs)"
  by pat_completeness auto
termination
  by (relation "measure (\<lambda>(pat, repl, s). length s)") auto


subsection \<open>The clock\<close>

text \<open>
  \<^verbatim>\<open>self.date_time_string()\<close> of the standard library's \<^verbatim>\<open>http.server\<close>: the current
  time, broken down in UTC, printed by \<^verbatim>\<open>email.utils.formatdate(timestamp, usegmt=True)\<close>
  as \<^verbatim>\<open>'%s, %02d %s %04d %02d:%02d:%02d GMT'\<close>. A clock reading is the broken-down time.
\<close>

datatype weekday = Mon | Tue | Wed | Thu | Fri | Sat | Sun

datatype month = Jan | Feb | Mar | Apr | May | Jun | Jul | Aug | Sep | Oct | Nov | Dec

record tm =
  tm_year :: nat
  tm_mon :: month
  tm_mday :: nat
  tm_hour :: nat
  tm_min :: nat
  tm_sec :: nat
  tm_wday :: weekday

fun weekday_name :: "weekday \<Rightarrow> string" where
  "weekday_name Mon = ''Mon''"
| "weekday_name Tue = ''Tue''"
| "weekday_name Wed = ''Wed''"
| "weekday_name Thu = ''Thu''"
| "weekday_name Fri = ''Fri''"
| "weekday_name Sat = ''Sat''"
| "weekday_name Sun = ''Sun''"

fun month_name :: "month \<Rightarrow> string" where
  "month_name Jan = ''Jan''"
| "month_name Feb = ''Feb''"
| "month_name Mar = ''Mar''"
| "month_name Apr = ''Apr''"
| "month_name May = ''May''"
| "month_name Jun = ''Jun''"
| "month_name Jul = ''Jul''"
| "month_name Aug = ''Aug''"
| "month_name Sep = ''Sep''"
| "month_name Oct = ''Oct''"
| "month_name Nov = ''Nov''"
| "month_name Dec = ''Dec''"

text \<open>\<^verbatim>\<open>'%0wd' % n\<close>: the decimal digits, filled with zeros on the left up to width \<open>w\<close>.\<close>

definition zero_pad :: "nat \<Rightarrow> nat \<Rightarrow> string" where
  "zero_pad w n = replicate (w - length (str_nat n)) (CHR ''0'') @ str_nat n"

definition date_time_string :: "tm \<Rightarrow> string" where
  "date_time_string t =
     weekday_name (tm_wday t) @ '', '' @ zero_pad 2 (tm_mday t) @ '' '' @
     month_name (tm_mon t) @ '' '' @ zero_pad 4 (tm_year t) @ '' '' @
     zero_pad 2 (tm_hour t) @ '':'' @ zero_pad 2 (tm_min t) @ '':'' @ zero_pad 2 (tm_sec t) @
     '' GMT''"

section \<open>Signatures, responses and the request\<close>

text \<open>
  A signature is a dict loaded from the rules file. \<open>responses\<close> is the value under the
  key \<^verbatim>\<open>"responses"\<close> (\<open>None\<close>: the key is absent); \<open>sig_items\<close> are the other entries,
  which only the scorer reads. A dict is true when it is not empty.
\<close>

record signature =
  responses :: "int list option"
  sig_items :: "(string \<times> string) list"

definition sig_truthy :: "signature \<Rightarrow> bool" where
  "sig_truthy s = (responses s \<noteq> None \<or> sig_items s \<noteq> [])"

text \<open>
  A response is a dict as well: each of the three keys \<open>responder\<close> reads is optional,
  \<open>other_keys\<close> are the further keys of the dict. The headers are a dict in insertion
  order: an association list whose keys are distinct.
\<close>

record response =
  status_code :: "int option"
  headers :: "(string \<times> string) list option"
  body :: "string option"
  other_keys :: "string list"

definition resp_empty :: "response \<Rightarrow> bool" where
  "resp_empty r = (status_code r = None \<and> headers r = None \<and> body r = None \<and> other_keys r = [])"

text \<open>The request as \<^verbatim>\<open>BaseHTTPRequestHandler\<close> parsed it, and the bytes still to be read.\<close>

record http_request =
  path :: string
  command :: string
  client_address :: string
  req_headers :: "(string \<times> string) list"
  request_version :: string
  rfile :: "byte list"

text \<open>\<^verbatim>\<open>RequestShim\<close>; its \<^verbatim>\<open>args\<close>, \<^verbatim>\<open>form\<close> and \<^verbatim>\<open>cookies\<close> are always empty.\<close>

record request_shim =
  shim_path :: string
  shim_method :: string
  shim_remote_addr :: string
  shim_headers :: "(string \<times> string) list"

text \<open>The dict \<^verbatim>\<open>log_data\<close> handed to the agent's queue.\<close>

record log_data =
  log_time :: string
  log_headers :: "(string \<times> string) list"
  log_sip :: string
  log_dip :: string
  log_method :: string
  log_url :: string
  log_post_data :: string
  log_useragent :: string
  log_version :: string
  log_response_id :: int
  log_signature_id :: "signature option"

text \<open>
  What the handler passes to the protocol layer (\<^verbatim>\<open>send_response_only\<close>,
  \<^verbatim>\<open>send_header\<close>, \<^verbatim>\<open>end_headers\<close>, \<^verbatim>\<open>wfile.write\<close>), in order.
\<close>

datatype wire = SendResponseOnly int | SendHeader string string | EndHeaders | WfileWrite "byte list"

text \<open>The error-level log lines: \<^verbatim>\<open>logger.error\<close> in \<open>responder\<close>, \<^verbatim>\<open>logger.exception\<close> in \<open>handle_request\<close>.\<close>

datatype log_line = ResponseIdMissing int | ClientDisconnected

text \<open>
  Everything outside this module, as parameters:
  \<^item> \<open>set_hash\<close>: the hashes that order the iteration of a \<^verbatim>\<open>set\<close> of strings;
  \<^item> \<open>sre_escape repl matched\<close>: what \<^verbatim>\<open>re.sub\<close> makes of a replacement that holds a
    backslash (escapes, group references), or its \<^verbatim>\<open>re.error\<close>;
  \<^item> \<open>gmtime i\<close>, \<open>now_strftime i\<close>: the clock at its \<open>i\<close>-th reading;
  \<^item> \<open>write_fault i\<close>: the exception, if any, of the \<open>i\<close>-th write to the peer;
  \<^item> \<open>score_request\<close> of \<^verbatim>\<open>core\<close>, the random draw of \<^verbatim>\<open>random.choice\<close>,
    \<^verbatim>\<open>urllib.parse.unquote\<close>, \<^verbatim>\<open>str.title\<close>, \<^verbatim>\<open>str.lower\<close>, \<^verbatim>\<open>int\<close> of a string and
    \<^verbatim>\<open>bytes.decode\<close> (\<open>None\<close>: the call raises).
\<close>

record env =
  set_hash :: "string \<Rightarrow> nat"
  sre_escape :: "string \<Rightarrow> string \<Rightarrow> py_error + string"
  gmtime :: "nat \<Rightarrow> tm"
  now_strftime :: "nat \<Rightarrow> string"
  write_fault :: "nat \<Rightarrow> py_error option"
  score_request :: "request_shim \<Rightarrow> signature \<Rightarrow> int"
  random_draw :: nat
  unquote :: "string \<Rightarrow> string"
  str_title :: "string \<Rightarrow> string"
  str_lower :: "string \<Rightarrow> string"
  int_of_str :: "string \<Rightarrow> int option"
  decode_utf8 :: "byte list \<Rightarrow> string option"

text \<open>
  The state the handler reads and writes: the agent's tables and queue, the global
  \<^verbatim>\<open>response_customizations\<close>, the number of clock readings so far, the log, and the
  handler's own \<^verbatim>\<open>customized_server_string\<close>, calls to the protocol layer and number of
  writes to the peer.
\<close>

record world =
  agent_signatures :: "signature list"
  agent_responses :: "int \<rightharpoonup> response"
  agent_my_ip :: string
  agent_queue :: "log_data list"
  response_customizations :: "string \<rightharpoonup> string"
  clock_reads :: nat
  log_lines :: "log_line list"
  customized_server_string :: "string option"
  sent :: "wire list"
  wfile_writes :: nat

section \<open>apply_customizations\<close>

text \<open>
  \<^verbatim>\<open>for eachtag in set(custom_tags)\<close>: each distinct tag once, in the order of the hashes
  (Python fixes no order for a set of strings).
\<close>

definition set_order :: "(string \<Rightarrow> nat) \<Rightarrow> string list \<Rightarrow> string list" where
  "set_order h xs = sort_key h (remdups xs)"

text \<open>
  \<^verbatim>\<open>re.sub(tag, markup, text_element)\<close> where \<open>pat\<close> is the literal text that \<^verbatim>\<open>tag\<close>
  matches. A replacement without a backslash is used as it is; one with a backslash goes
  through the template parser of \<^verbatim>\<open>re\<close>, whether or not the pattern matches.
\<close>

definition re_sub :: "env \<Rightarrow> string \<Rightarrow> string \<Rightarrow> string \<Rightarrow> py_error + string" where
  "re_sub env pat repl s =
     (if CHR 0x5C \<in> set repl then
        (case sre_escape env repl pat of
           Inl e \<Rightarrow> Inl e
         | Inr r \<Rightarrow> Inr (sub_literal pat r s))
      else Inr (sub_literal pat repl s))"

text \<open>
  The loop over the tags. \<^verbatim>\<open>eachtag\<close> was captured by \<^verbatim>\<open>(\w+)\<close>, so the pattern
  \<^verbatim>\<open>f"\\*{{\\*{eachtag}\\*}}\\*"\<close> matches the literal marker of the tag;
  \<^verbatim>\<open>response_customizations.get(eachtag, "")\<close> is the replacement.
\<close>

fun substitute_tags :: "env \<Rightarrow> (string \<rightharpoonup> string) \<Rightarrow> string list \<Rightarrow> string \<Rightarrow> py_error + string" where
  "substitute_tags env tags [] text_element = Inr text_element"
| "substitute_tags env tags (eachtag # tags_left) text_element =
     (let markup = (case tags eachtag of None \<Rightarrow> [] | Some v \<Rightarrow> v)
      in case re_sub env (marker eachtag) markup text_element of
           Inl e \<Rightarrow> Inl e
         | Inr text' \<Rightarrow> substitute_tags env tags tags_left text')"

text \<open>
  \<open>apply_customizations\<close> first stores the current date under \<^verbatim>\<open>"date"\<close> in the global
  mapping (one clock reading), then substitutes the tags found in the text.
\<close>

definition apply_customizations :: "env \<Rightarrow> string \<Rightarrow> world \<Rightarrow> (py_error + string) \<times> world" where
  "apply_customizations env text_element w =
     (let w1 = w\<lparr>response_customizations :=
                   (response_customizations w)(''date'' \<mapsto> date_time_string (gmtime env (clock_reads w))),
                 clock_reads := Suc (clock_reads w)\<rparr>;
          custom_tags = findall text_element
      in (substitute_tags env (response_customizations w1)
            (set_order (set_hash env) custom_tags) text_element, w1))"

section \<open>responder\<close>

text \<open>
  The overridden \<open>send_response\<close>: the status line, then the \<^verbatim>\<open>Server\<close> header when
  \<^verbatim>\<open>customized_server_string\<close> is true (neither \<^verbatim>\<open>None\<close> nor empty). The \<^verbatim>\<open>Server\<close> and
  \<^verbatim>\<open>Date\<close> headers of the overridden method are not sent. \<^verbatim>\<open>log_request\<close> ends in
  \<open>log_message\<close>, which does nothing.
\<close>

definition send_header :: "string \<Rightarrow> string \<Rightarrow> world \<Rightarrow> world" where
  "send_header keyword v w = w\<lparr>sent := sent w @ [SendHeader keyword v]\<rparr>"

definition send_response :: "int \<Rightarrow> world \<Rightarrow> world" where
  "send_response code w =
     (let w1 = w\<lparr>sent := sent w @ [SendResponseOnly code]\<rparr>
      in case customized_server_string w1 of
           None \<Rightarrow> w1
         | Some s \<Rightarrow> if s \<noteq> [] then send_header ''Server'' s w1 else w1)"

text \<open>
  A write to the peer: \<^verbatim>\<open>end_headers\<close> flushes the buffered status line and headers,
  \<^verbatim>\<open>wfile.write\<close> sends the body. Either raises when the peer has gone.
\<close>

definition peer_write :: "env \<Rightarrow> wire \<Rightarrow> world \<Rightarrow> (py_error + unit) \<times> world" where
  "peer_write env ev w =
     (case write_fault env (wfile_writes w) of
        Some e \<Rightarrow> (Inl e, w\<lparr>wfile_writes := Suc (wfile_writes w)\<rparr>)
      | None \<Rightarrow> (Inr (), w\<lparr>sent := sent w @ [ev], wfile_writes := Suc (wfile_writes w)\<rparr>))"

text \<open>The loop over \<^verbatim>\<open>headers.items()\<close>.\<close>

fun send_headers :: "env \<Rightarrow> (string \<times> string) list \<Rightarrow> world \<Rightarrow> (py_error + unit) \<times> world" where
  "send_headers env [] w = (Inr (), w)"
| "send_headers env ((k, v) # kvs) w =
     (if k = ''Server'' then send_headers env kvs w
      else (case apply_customizations env v w of
              (Inl e, w1) \<Rightarrow> (Inl e, w1)
            | (Inr formatted_value, w1) \<Rightarrow> send_headers env kvs (send_header k formatted_value w1)))"

text \<open>
  The reads of \<^verbatim>\<open>resp\<close>: \<^verbatim>\<open>resp.get("headers", {})\<close>, \<^verbatim>\<open>resp.get("body", "Not Found")\<close>
  and \<^verbatim>\<open>resp.get("status_code", default_status_code)\<close>.
\<close>

definition get_headers :: "response \<Rightarrow> (string \<times> string) list" where
  "get_headers resp = (case headers resp of None \<Rightarrow> [] | Some h \<Rightarrow> h)"

definition get_body :: "response \<Rightarrow> string" where
  "get_body resp = (case body resp of None \<Rightarrow> ''Not Found'' | Some b \<Rightarrow> b)"

definition default_status_code :: "byte list \<Rightarrow> int" where
  "default_status_code body_bytes =
     (if length body_bytes > length ''PAGE NOT FOUND.'' then 200 else 404)"

definition get_status_code :: "response \<Rightarrow> int \<Rightarrow> int" where
  "get_status_code resp d = (case status_code resp of None \<Rightarrow> d | Some c \<Rightarrow> c)"

text \<open>
  The two assignments to the header dict: \<^verbatim>\<open>Content-Type\<close> keeps its value or becomes
  \<^verbatim>\<open>text/html\<close>, \<^verbatim>\<open>Content-Length\<close> becomes \<^verbatim>\<open>str(len(body_bytes))\<close>. An assignment
  keeps the place of a key the dict already has and appends a new key.
\<close>

definition required_headers :: "(string \<times> string) list \<Rightarrow> byte list \<Rightarrow> (string \<times> string) list" where
  "required_headers hdrs body_bytes =
     AList.update ''Content-Length'' (str_nat (length body_bytes))
       (AList.update ''Content-Type''
          (case map_of hdrs ''Content-Type'' of None \<Rightarrow> ''text/html'' | Some v \<Rightarrow> v) hdrs)"

text \<open>
  \<open>responder\<close>. \<^verbatim>\<open>dict(None)\<close> raises \<^verbatim>\<open>TypeError\<close>, so an id that is not in the table
  ends the call on its first line. \<^verbatim>\<open>resp\<close> is a shallow copy: its header dict is the
  table's own, and the two assignments to it are seen in the table afterwards.
\<close>

definition responder :: "env \<Rightarrow> int \<Rightarrow> world \<Rightarrow> (py_error + unit) \<times> world" where
  "responder env response_id w =
     (case agent_responses w response_id of
        None \<Rightarrow> (Inl TypeError, w)
      | Some resp \<Rightarrow>
          (let w1 = (if resp_empty resp
                     then w\<lparr>log_lines := log_lines w @ [ResponseIdMissing response_id]\<rparr> else w);
               w2 = w1\<lparr>customized_server_string := map_of (get_headers resp) ''Server''\<rparr>
           in case apply_customizations env (get_body resp) w2 of
                (Inl e, w3) \<Rightarrow> (Inl e, w3)
              | (Inr body', w3) \<Rightarrow>
                  (let body_bytes = encode_utf8 body';
                       code = get_status_code resp (default_status_code body_bytes);
                       w4 = send_response code w3;
                       hdrs = required_headers (get_headers resp) body_bytes;
                       w5 = (case headers resp of
                               None \<Rightarrow> w4
                             | Some h \<Rightarrow>
                                 w4\<lparr>agent_responses :=
                                      (agent_responses w4)(response_id \<mapsto> resp\<lparr>headers := Some hdrs\<rparr>)\<rparr>)
                   in case send_headers env hdrs w5 of
                        (Inl e, w6) \<Rightarrow> (Inl e, w6)
                      | (Inr u, w6) \<Rightarrow>
                          (case peer_write env EndHeaders w6 of
                             (Inl e, w7) \<Rightarrow> (Inl e, w7)
                           | (Inr u', w7) \<Rightarrow> peer_write env (WfileWrite body_bytes) w7))))"

section \<open>handle_request\<close>

text \<open>
  The scan over \<^verbatim>\<open>isc_agent.signatures\<close>, from \<^verbatim>\<open>best_score = -1\<close> and
  \<^verbatim>\<open>best_signature = None\<close>: only a strictly greater score replaces the pair.
\<close>

fun scan_signatures ::
  "(signature \<Rightarrow> int) \<Rightarrow> signature list \<Rightarrow> int \<times> signature option \<Rightarrow> int \<times> signature option" where
  "scan_signatures sc [] best = best"
| "scan_signatures sc (s # ss) (best_score, best_signature) =
     (let score = sc s
      in if score > best_score then scan_signatures sc ss (score, Some s)
         else scan_signatures sc ss (best_score, best_signature))"

text \<open>
  \<^verbatim>\<open>random.choice(seq)\<close> raises \<^verbatim>\<open>IndexError\<close> on an empty sequence and returns
  \<^verbatim>\<open>seq[randbelow(len(seq))]\<close> otherwise; \<open>r\<close> is the random draw, reduced below the length.
\<close>

definition random_choice :: "nat \<Rightarrow> 'a list \<Rightarrow> py_error + 'a" where
  "random_choice r xs = (if xs = [] then Inl IndexError else Inr (xs ! (r mod length xs)))"

text \<open>\<^verbatim>\<open>best_signature.get("responses", [1])\<close>.\<close>

definition candidates :: "signature \<Rightarrow> int list" where
  "candidates s = (case responses s of None \<Rightarrow> [1] | Some rs \<Rightarrow> rs)"

definition choose_response_id :: "nat \<Rightarrow> int \<Rightarrow> signature option \<Rightarrow> py_error + int" where
  "choose_response_id r best_score best_signature =
     (case best_signature of
        None \<Rightarrow> Inr 1
      | Some s \<Rightarrow> if sig_truthy s \<and> best_score > 0 then random_choice r (candidates s) else Inr 1)"

text \<open>
  The header dict of the shim, \<^verbatim>\<open>{k.replace("_", "-").title(): v for k, v in headers.items()}\<close>:
  a later header of the same name replaces the value of the earlier one.
\<close>

definition canon_headers :: "env \<Rightarrow> (string \<times> string) list \<Rightarrow> (string \<times> string) list" where
  "canon_headers env hs =
     foldl (\<lambda>d (k, v).
              AList.update (str_title env (map (\<lambda>c. if c = CHR ''_'' then CHR ''-'' else c) k)) v d)
           [] hs"

definition make_shim :: "env \<Rightarrow> http_request \<Rightarrow> request_shim" where
  "make_shim env req =
     \<lparr>shim_path = unquote env (path req), shim_method = command req,
      shim_remote_addr = client_address req, shim_headers = canon_headers env (req_headers req)\<rparr>"

text \<open>The first part of \<open>handle_request\<close>: the best pair and the response id.\<close>

definition best_match :: "env \<Rightarrow> http_request \<Rightarrow> world \<Rightarrow> int \<times> signature option" where
  "best_match env req w =
     scan_signatures (score_request env (make_shim env req)) (agent_signatures w) (- 1, None)"

definition select_response :: "env \<Rightarrow> http_request \<Rightarrow> world \<Rightarrow> py_error + int" where
  "select_response env req w =
     (case best_match env req w of
        (best_score, best_signature) \<Rightarrow> choose_response_id (random_draw env) best_score best_signature)"

text \<open>
  \<^verbatim>\<open>headers.get("User-Agent", "")\<close> on the parsed message: the first header of that name,
  compared in lower case.
\<close>

definition message_get :: "env \<Rightarrow> (string \<times> string) list \<Rightarrow> string \<Rightarrow> string \<Rightarrow> string" where
  "message_get env hs name failobj =
     (case filter (\<lambda>(k, v). str_lower env k = str_lower env name) hs of
        [] \<Rightarrow> failobj
      | (k, v) # _ \<Rightarrow> v)"

text \<open>\<^verbatim>\<open>int(request.headers.get('Content-Length', 0))\<close>.\<close>

definition content_length :: "env \<Rightarrow> request_shim \<Rightarrow> py_error + int" where
  "content_length env request =
     (case map_of (shim_headers request) ''Content-Length'' of
        None \<Rightarrow> Inr 0
      | Some v \<Rightarrow> (case int_of_str env v of None \<Rightarrow> Inl ValueError | Some n \<Rightarrow> Inr n))"

text \<open>
  \<^verbatim>\<open>self.rfile.read(content_length)\<close> on the buffered reader: up to \<open>n\<close> bytes, all of them
  for \<open>-1\<close>, \<^verbatim>\<open>ValueError\<close> below \<open>-1\<close>.
\<close>

definition rfile_read :: "int \<Rightarrow> byte list \<Rightarrow> py_error + byte list" where
  "rfile_read n bs =
     (if n < - 1 then Inl ValueError else if n = - 1 then Inr bs else Inr (take (nat n) bs))"

text \<open>
  The \<^verbatim>\<open>try\<close> block: the response, then the body of the request, the record and the
  queue. Only \<^verbatim>\<open>BrokenPipeError\<close> is caught; any other exception leaves \<open>handle_request\<close>.
\<close>

definition respond_and_log ::
  "env \<Rightarrow> http_request \<Rightarrow> int \<Rightarrow> signature option \<Rightarrow> world \<Rightarrow> py_error option \<times> world" where
  "respond_and_log env req response_id best_signature w =
     (case responder env response_id w of
        (Inl e, w1) \<Rightarrow>
          if e = BrokenPipeError then (None, w1\<lparr>log_lines := log_lines w1 @ [ClientDisconnected]\<rparr>)
          else (Some e, w1)
      | (Inr u, w1) \<Rightarrow>
          (case content_length env (make_shim env req) of
             Inl e \<Rightarrow> (Some e, w1)
           | Inr n \<Rightarrow>
               (case rfile_read n (rfile req) of
                  Inl e \<Rightarrow> (Some e, w1)
                | Inr bytes \<Rightarrow>
                    (case decode_utf8 env bytes of
                       None \<Rightarrow> (Some UnicodeDecodeError, w1)
                     | Some post_data \<Rightarrow>
                         (None,
                          w1\<lparr>agent_queue := agent_queue w1 @
                                [\<lparr>log_time = now_strftime env (clock_reads w1),
                                  log_headers = shim_headers (make_shim env req),
                                  log_sip = client_address req,
                                  log_dip = agent_my_ip w1,
                                  log_method = command req,
                                  log_url = unquote env (path req),
                                  log_post_data = post_data,
                                  log_useragent = message_get env (req_headers req) ''User-Agent'' [],
                                  log_version = request_version req,
                                  log_response_id = response_id,
                                  log_signature_id = best_signature\<rparr>],
                             clock_reads := Suc (clock_reads w1)\<rparr>)))))"

definition handle_request :: "env \<Rightarrow> http_request \<Rightarrow> world \<Rightarrow> py_error option \<times> world" where
  "handle_request env req w =
     (case select_response env req w of
        Inl e \<Rightarrow> (Some e, w)
      | Inr response_id \<Rightarrow> respond_and_log env req response_id (snd (best_match env req w)) w)"

section \<open>shutdown_handler\<close>

text \<open>The calls of \<open>shutdown_handler\<close>, in the order of its body.\<close>

datatype call =
    LoggerInfo string | LoggerDebug string | IscAgentShutdown | StunMgrShutdown | SysExit

definition shutdown_handler :: "call list" where
  "shutdown_handler =
     [LoggerInfo ''Shutting down isc-agent & stunnel gracefully'',
      LoggerDebug ''Active threads before ISC-AGENT shutdown'',
      IscAgentShutdown,
      LoggerDebug ''Active threads before STUNNEL shutdown'',
      StunMgrShutdown,
      LoggerDebug ''Active threads before exit'',
      LoggerInfo ''Exiting honeypot web service'',
      SysExit]"

text \<open>
  The main thread with \<open>shutdown_handler\<close> installed for \<^verbatim>\<open>SIGTERM\<close> and \<^verbatim>\<open>SIGINT\<close>.
  \<open>handler_frames\<close> holds, innermost first, what is left of each handler invocation under
  way. A signal starts the handler on top of whatever runs: the handler sets no flag and
  masks nothing, and Python runs a handler between two instructions of the main thread,
  also inside an earlier handler. \<^verbatim>\<open>sys.exit(0)\<close> raises \<^verbatim>\<open>SystemExit\<close>, which leaves every
  interrupted invocation and ends the process.
\<close>

record process =
  handler_frames :: "call list list"
  calls_made :: "call list"
  exited :: bool

datatype event = Signal | Step

fun proc_step :: "event \<Rightarrow> process \<Rightarrow> process" where
  "proc_step Signal p =
     (if exited p then p else p\<lparr>handler_frames := shutdown_handler # handler_frames p\<rparr>)"
| "proc_step Step p =
     (if exited p then p
      else (case handler_frames p of
              [] \<Rightarrow> p
            | [] # outer \<Rightarrow> p\<lparr>handler_frames := outer\<rparr>
            | (c # cs) # outer \<Rightarrow>
                if c = SysExit
                then p\<lparr>calls_made := calls_made p @ [c], handler_frames := [], exited := True\<rparr>
                else p\<lparr>calls_made := calls_made p @ [c], handler_frames := cs # outer\<rparr>))"

definition run :: "event list \<Rightarrow> process \<Rightarrow> process" where
  "run evs p = fold proc_step evs p"

definition serving :: process where
  "serving = \<lparr>handler_frames = [], calls_made = [], exited = False\<rparr>"

section \<open>Observations\<close>

text \<open>The values passed to \<^verbatim>\<open>send_header\<close> under one keyword, in order.\<close>

fun header_values :: "string \<Rightarrow> wire list \<Rightarrow> string list" where
  "header_values k [] = []"
| "header_values k (SendHeader k' v # evs) =
     (if k' = k then v # header_values k evs else header_values k evs)"
| "header_values k (SendResponseOnly c # evs) = header_values k evs"
| "header_values k (EndHeaders # evs) = header_values k evs"
| "header_values k (WfileWrite bs # evs) = header_values k evs"

text \<open>What \<open>send_response\<close> passes on after the status line.\<close>

definition server_events :: "(string \<times> string) list \<Rightarrow> wire list" where
  "server_events hdrs =
     (case map_of hdrs ''Server'' of
        None \<Rightarrow> []
      | Some s \<Rightarrow> if s \<noteq> [] then [SendHeader ''Server'' s] else [])"

text \<open>
  A text written as pieces: plain text and markers. The pieces are well formed when no
  plain piece holds an asterisk and every tag name is one or more word characters.
  \<open>fill\<close> is the text a piece stands for once its tag is looked up.
\<close>

datatype segment = Plain string | Tag string

fun segment_text :: "segment \<Rightarrow> string" where
  "segment_text (Plain p) = p"
| "segment_text (Tag n) = marker n"

definition flatten :: "segment list \<Rightarrow> string" where
  "flatten segs = concat (map segment_text segs)"

fun fill :: "(string \<rightharpoonup> string) \<Rightarrow> segment \<Rightarrow> string" where
  "fill tags (Plain p) = p"
| "fill tags (Tag n) = (case tags n of None \<Rightarrow> [] | Some v \<Rightarrow> v)"

fun well_formed_segment :: "segment \<Rightarrow> bool" where
  "well_formed_segment (Plain p) = (CHR ''*'' \<notin> set p)"
| "well_formed_segment (Tag n) = (n \<noteq> [] \<and> list_all is_word n)"

definition tag_names :: "segment list \<Rightarrow> string list" where
  "tag_names segs = concat (map (\<lambda>g. case g of Plain p \<Rightarrow> [] | Tag n \<Rightarrow> [n]) segs)"

section \<open>Example inputs\<close>

text \<open>A clock, an environment without faults, two signatures, two responses and a request.\<close>

definition ex_tm :: tm where
  "ex_tm = \<lparr>tm_year = 2026, tm_mon = Nov, tm_mday = 3, tm_hour = 22, tm_min = 32, tm_sec = 0,
            tm_wday = Tue\<rparr>"

definition ex_env :: env where
  "ex_env =
     \<lparr>set_hash = length,
      sre_escape = (\<lambda>repl matched. Inl ReError),
      gmtime = (\<lambda>i. ex_tm\<lparr>tm_sec := i\<rparr>),
      now_strftime = (\<lambda>i. ''2026-11-03T22:32:00.000000''),
      write_fault = (\<lambda>i. None),
      score_request = (\<lambda>request s. int (length (sig_items s))),
      random_draw = 0,
      unquote = (\<lambda>p. p),
      str_title = (\<lambda>k. k),
      str_lower = (\<lambda>k. k),
      int_of_str = (\<lambda>v. if v = ''0'' then Some 0 else None),
      decode_utf8 = (\<lambda>bs. if bs = [] then Some [] else None)\<rparr>"

definition ex_sig_a :: signature where
  "ex_sig_a = \<lparr>responses = Some [7, 8], sig_items = [(''id'', ''10'')]\<rparr>"

definition ex_sig_b :: signature where
  "ex_sig_b = \<lparr>responses = Some [8], sig_items = [(''id'', ''11'')]\<rparr>"

definition ex_resp_default :: response where
  "ex_resp_default =
     \<lparr>status_code = None, headers = None, body = Some ''PAGE NOT FOUND.'', other_keys = []\<rparr>"

definition ex_resp_banner :: response where
  "ex_resp_banner =
     \<lparr>status_code = None, headers = Some [(''Server'', ''nginx'')],
      body = Some ''Server: *{*banner*}*'', other_keys = []\<rparr>"

definition ex_world :: world where
  "ex_world =
     \<lparr>agent_signatures = [ex_sig_a, ex_sig_b],
      agent_responses = [1 \<mapsto> ex_resp_default, 7 \<mapsto> ex_resp_banner],
      agent_my_ip = ''192.0.2.1'',
      agent_queue = [],
      response_customizations = [''banner'' \<mapsto> ''Apache/2.4.41''],
      clock_reads = 0,
      log_lines = [],
      customized_server_string = None,
      sent = [],
      wfile_writes = 0\<rparr>"

definition ex_req :: http_request where
  "ex_req =
     \<lparr>path = ''/admin.php'', command = ''GET'', client_address = ''10.0.0.5'',
      req_headers = [(''User-Agent'', ''curl/8.0'')], request_version = ''HTTP/1.1'', rfile = []\<rparr>"

section \<open>The choice of the signature and of the response id\<close>

lemma scan_signatures_cases:
  "scan_signatures sc ss (b, x) = (b', y) \<Longrightarrow>
     ((\<forall>s\<in>set ss. sc s \<le> b) \<and> b' = b \<and> y = x) \<or>
     (\<exists>pre s post. ss = pre @ s # post \<and> b < sc s \<and> (\<forall>t\<in>set pre. sc t < sc s) \<and>
        (\<forall>t\<in>set post. sc t \<le> sc s) \<and> b' = sc s \<and> y = Some s)"
proof (induction ss arbitrary: b x)
  case Nil
  then show ?case by simp
next
  case (Cons s ss)
  show ?case
  proof (cases "b < sc s")
    case True
    with Cons.prems have r: "scan_signatures sc ss (sc s, Some s) = (b', y)" by simp
    from Cons.IH [OF r] show ?thesis
    proof (elim disjE exE conjE)
      assume a: "\<forall>t\<in>set ss. sc t \<le> sc s" "b' = sc s" "y = Some s"
      have "s # ss = [] @ s # ss \<and> b < sc s \<and> (\<forall>t\<in>set []. sc t < sc s) \<and>
        (\<forall>t\<in>set ss. sc t \<le> sc s) \<and> b' = sc s \<and> y = Some s"
        using a True by simp
      then show ?thesis by (intro disjI2 exI)
    next
      fix pre t post
      assume p: "ss = pre @ t # post" "sc s < sc t" "\<forall>u\<in>set pre. sc u < sc t"
        "\<forall>u\<in>set post. sc u \<le> sc t" "b' = sc t" "y = Some t"
      have "s # ss = (s # pre) @ t # post \<and> b < sc t \<and> (\<forall>u\<in>set (s # pre). sc u < sc t) \<and>
        (\<forall>u\<in>set post. sc u \<le> sc t) \<and> b' = sc t \<and> y = Some t"
        using p True by simp
      then show ?thesis by (intro disjI2 exI)
    qed
  next
    case False
    with Cons.prems have r: "scan_signatures sc ss (b, x) = (b', y)" by simp
    from Cons.IH [OF r] show ?thesis
    proof (elim disjE exE conjE)
      assume "\<forall>t\<in>set ss. sc t \<le> b" "b' = b" "y = x"
      with False show ?thesis by simp
    next
      fix pre t post
      assume p: "ss = pre @ t # post" "b < sc t" "\<forall>u\<in>set pre. sc u < sc t"
        "\<forall>u\<in>set post. sc u \<le> sc t" "b' = sc t" "y = Some t"
      have "s # ss = (s # pre) @ t # post \<and> b < sc t \<and> (\<forall>u\<in>set (s # pre). sc u < sc t) \<and>
        (\<forall>u\<in>set post. sc u \<le> sc t) \<and> b' = sc t \<and> y = Some t"
        using p False by simp
      then show ?thesis by (intro disjI2 exI)
    qed
  qed
qed

lemma Max_insert_below:
  fixes a b :: int
  assumes "finite A" and "a \<le> b"
  shows "Max (insert a (insert b A)) = Max (insert b A)"
proof -
  have "Max (insert a (insert b A)) = max a (Max (insert b A))"
    using assms(1) by (simp del: Max_insert add: Max_insert [of "insert b A" a])
  moreover have "b \<le> Max (insert b A)" using assms(1) by (simp add: Max_ge)
  ultimately show ?thesis using assms(2) by (simp add: max_def)
qed

lemma scan_signatures_fst:
  "fst (scan_signatures sc ss (b, x)) = Max (insert b (sc ` set ss))"
proof (induction ss arbitrary: b x)
  case Nil
  then show ?case by simp
next
  case (Cons s ss)
  have fin: "finite (sc ` set ss)" by simp
  show ?case
  proof (cases "b < sc s")
    case True
    then have "Max (insert b (insert (sc s) (sc ` set ss))) = Max (insert (sc s) (sc ` set ss))"
      using Max_insert_below [OF fin, of b "sc s"] by simp
    with True Cons.IH [of "sc s" "Some s"] show ?thesis by simp
  next
    case False
    then have "Max (insert (sc s) (insert b (sc ` set ss))) = Max (insert b (sc ` set ss))"
      using Max_insert_below [OF fin, of "sc s" b] by simp
    then have "Max (insert b (insert (sc s) (sc ` set ss))) = Max (insert b (sc ` set ss))"
      by (simp add: insert_commute)
    with False Cons.IH [of b x] show ?thesis by simp
  qed
qed

lemma best_match_fst:
  "fst (best_match env req w) =
     Max (insert (- 1) (score_request env (make_shim env req) ` set (agent_signatures w)))"
  by (simp add: best_match_def scan_signatures_fst)

lemma random_choice_member: "random_choice r xs = Inr x \<Longrightarrow> x \<in> set xs"
  by (auto simp: random_choice_def split: if_splits)

lemma random_choice_total: "xs \<noteq> [] \<Longrightarrow> \<exists>x. random_choice r xs = Inr x"
  by (simp add: random_choice_def)

lemma best_match_Some:
  assumes "best_match env req w = (b, Some s)"
  shows "s \<in> set (agent_signatures w) \<and> score_request env (make_shim env req) s = b"
  using scan_signatures_cases [OF assms [unfolded best_match_def]] by auto

text \<open>
  Claim C1. Whenever \<open>handle_request\<close> chooses a response id, it is drawn from the candidate
  list of the best signature when the best score is above zero and that signature is true,
  and it is the default 1 otherwise. The best score is the greatest score of the snapshot
  (or the initial \<open>-1\<close>), the best signature is one of the snapshot with that score, and
  an id is chosen whenever every candidate list is non-empty (\<^verbatim>\<open>random.choice\<close> raises on
  an empty one).
\<close>

theorem select_response_candidates:
  "(\<forall>rid. select_response env req w = Inr rid \<longrightarrow>
      (case best_match env req w of
         (best_score, None) \<Rightarrow> rid = 1
       | (best_score, Some s) \<Rightarrow>
           if 0 < best_score \<and> sig_truthy s then rid \<in> set (candidates s) else rid = 1))
   \<and> ((\<forall>s\<in>set (agent_signatures w). candidates s \<noteq> []) \<longrightarrow>
        (\<exists>rid. select_response env req w = Inr rid))
   \<and> fst (best_match env req w) =
        Max (insert (- 1) (score_request env (make_shim env req) ` set (agent_signatures w)))
   \<and> (\<forall>s. snd (best_match env req w) = Some s \<longrightarrow>
        s \<in> set (agent_signatures w) \<and>
        score_request env (make_shim env req) s = fst (best_match env req w))"
proof -
  obtain b x where bm: "best_match env req w = (b, x)" by (cases "best_match env req w")
  have p1: "\<forall>rid. select_response env req w = Inr rid \<longrightarrow>
      (case best_match env req w of
         (best_score, None) \<Rightarrow> rid = 1
       | (best_score, Some s) \<Rightarrow>
           if 0 < best_score \<and> sig_truthy s then rid \<in> set (candidates s) else rid = 1)"
    using bm
    by (auto simp: select_response_def choose_response_id_def
             split: option.splits if_splits dest: random_choice_member)
  have p2: "(\<forall>s\<in>set (agent_signatures w). candidates s \<noteq> []) \<longrightarrow>
        (\<exists>rid. select_response env req w = Inr rid)"
  proof
    assume ne: "\<forall>s\<in>set (agent_signatures w). candidates s \<noteq> []"
    show "\<exists>rid. select_response env req w = Inr rid"
    proof (cases x)
      case None
      with bm show ?thesis by (simp add: select_response_def choose_response_id_def)
    next
      case (Some s)
      with bm have "s \<in> set (agent_signatures w)" using best_match_Some by blast
      with ne have "candidates s \<noteq> []" by blast
      then obtain y where "random_choice (random_draw env) (candidates s) = Inr y"
        using random_choice_total by blast
      with bm Some show ?thesis by (simp add: select_response_def choose_response_id_def)
    qed
  qed
  have p4: "\<forall>s. snd (best_match env req w) = Some s \<longrightarrow>
        s \<in> set (agent_signatures w) \<and>
        score_request env (make_shim env req) s = fst (best_match env req w)"
    using bm best_match_Some [of env req w b] by auto
  from p1 p2 best_match_fst p4 show ?thesis by blast
qed

lemma ex_best: "best_match ex_env ex_req ex_world = (1, Some ex_sig_a)"
  by (simp add: best_match_def ex_env_def ex_world_def ex_sig_a_def ex_sig_b_def)

lemma ex_sel: "select_response ex_env ex_req ex_world = Inr 7"
  by (simp add: select_response_def ex_best choose_response_id_def sig_truthy_def candidates_def random_choice_def)
     (simp add: ex_env_def ex_sig_a_def)

theorem select_response_candidates_witness:
  "select_response ex_env ex_req ex_world = Inr 7 \<and>
   best_match ex_env ex_req ex_world = (1, Some ex_sig_a) \<and>
   sig_truthy ex_sig_a \<and> 7 \<in> set (candidates ex_sig_a) \<and>
   (\<exists>rid. select_response ex_env ex_req ex_world = Inr rid)"
  using select_response_candidates [of ex_env ex_req ex_world] ex_sel ex_best
  by (simp add: sig_truthy_def candidates_def ex_sig_a_def)

text \<open>
  Claim C2, amended. When some signature scores above the initial best score \<open>-1\<close>, the
  scan selects the first signature of the snapshot that attains the greatest score: every
  signature before it scores strictly less, every signature after it scores at most as
  much. When no signature scores above \<open>-1\<close>, no signature is selected.
\<close>

theorem best_match_first_of_maximal:
  "((\<exists>s\<in>set (agent_signatures w). - 1 < score_request env (make_shim env req) s) \<longrightarrow>
      (\<exists>pre s post.
         agent_signatures w = pre @ s # post \<and>
         best_match env req w = (score_request env (make_shim env req) s, Some s) \<and>
         (\<forall>t\<in>set pre. score_request env (make_shim env req) t < score_request env (make_shim env req) s) \<and>
         (\<forall>t\<in>set post. score_request env (make_shim env req) t \<le> score_request env (make_shim env req) s)))
   \<and> ((\<forall>s\<in>set (agent_signatures w). score_request env (make_shim env req) s \<le> - 1) \<longrightarrow>
        best_match env req w = (- 1, None))"
proof -
  let ?sc = "score_request env (make_shim env req)"
  obtain b x where bm: "scan_signatures ?sc (agent_signatures w) (- 1, None) = (b, x)"
    by (cases "scan_signatures ?sc (agent_signatures w) (- 1, None)")
  note c = scan_signatures_cases [OF bm]
  have p1: "(\<exists>s\<in>set (agent_signatures w). - 1 < ?sc s) \<longrightarrow>
      (\<exists>pre s post.
         agent_signatures w = pre @ s # post \<and>
         best_match env req w = (?sc s, Some s) \<and>
         (\<forall>t\<in>set pre. ?sc t < ?sc s) \<and> (\<forall>t\<in>set post. ?sc t \<le> ?sc s))"
  proof
    assume "\<exists>s\<in>set (agent_signatures w). - 1 < ?sc s"
    then have "\<not> (\<forall>s\<in>set (agent_signatures w). ?sc s \<le> - 1)" by force
    with c obtain pre s post where "agent_signatures w = pre @ s # post"
      "\<forall>t\<in>set pre. ?sc t < ?sc s" "\<forall>t\<in>set post. ?sc t \<le> ?sc s" "b = ?sc s" "x = Some s"
      by blast
    with bm show "\<exists>pre s post.
         agent_signatures w = pre @ s # post \<and>
         best_match env req w = (?sc s, Some s) \<and>
         (\<forall>t\<in>set pre. ?sc t < ?sc s) \<and> (\<forall>t\<in>set post. ?sc t \<le> ?sc s)"
      unfolding best_match_def by blast
  qed
  have p2: "(\<forall>s\<in>set (agent_signatures w). ?sc s \<le> - 1) \<longrightarrow> best_match env req w = (- 1, None)"
  proof
    assume a: "\<forall>s\<in>set (agent_signatures w). ?sc s \<le> - 1"
    from c show "best_match env req w = (- 1, None)"
    proof
      assume "(\<forall>s\<in>set (agent_signatures w). ?sc s \<le> - 1) \<and> b = - 1 \<and> x = None"
      with bm show ?thesis by (simp add: best_match_def)
    next
      assume "\<exists>pre s post. agent_signatures w = pre @ s # post \<and> - 1 < ?sc s \<and>
        (\<forall>t\<in>set pre. ?sc t < ?sc s) \<and> (\<forall>t\<in>set post. ?sc t \<le> ?sc s) \<and> b = ?sc s \<and> x = Some s"
      then obtain pre s post where "agent_signatures w = pre @ s # post" "- 1 < ?sc s" by blast
      with a show ?thesis by force
    qed
  qed
  from p1 p2 show ?thesis by blast
qed

theorem best_match_first_of_maximal_witness:
  "agent_signatures ex_world = [] @ ex_sig_a # [ex_sig_b] \<and>
   score_request ex_env (make_shim ex_env ex_req) ex_sig_a = 1 \<and>
   score_request ex_env (make_shim ex_env ex_req) ex_sig_b = 1 \<and>
   best_match ex_env ex_req ex_world = (1, Some ex_sig_a)"
proof -
  have s: "score_request ex_env (make_shim ex_env ex_req) ex_sig_a = 1"
          "score_request ex_env (make_shim ex_env ex_req) ex_sig_b = 1"
    by (simp_all add: ex_env_def ex_sig_a_def ex_sig_b_def)
  have sigs: "agent_signatures ex_world = [ex_sig_a, ex_sig_b]" by (simp add: ex_world_def)
  have ne: "ex_sig_a \<noteq> ex_sig_b" by (simp add: ex_sig_a_def ex_sig_b_def)
  have h: "\<exists>s\<in>set (agent_signatures ex_world). - 1 < score_request ex_env (make_shim ex_env ex_req) s"
    using s sigs by simp
  from best_match_first_of_maximal [of ex_world ex_env ex_req] h
  obtain pre s post where p: "agent_signatures ex_world = pre @ s # post"
    "best_match ex_env ex_req ex_world = (score_request ex_env (make_shim ex_env ex_req) s, Some s)"
    "\<forall>t\<in>set pre. score_request ex_env (make_shim ex_env ex_req) t < score_request ex_env (make_shim ex_env ex_req) s"
    by blast
  have "pre = []"
  proof (cases pre)
    case Nil then show ?thesis .
  next
    case (Cons a pre')
    with p(1) sigs have "a = ex_sig_a" by simp
    moreover from Cons p(1) sigs have "s = ex_sig_b" by (cases pre') auto
    ultimately show ?thesis using p(3) Cons s by simp
  qed
  with p(1) sigs have "s = ex_sig_a" by simp
  with p(2) s sigs show ?thesis by simp
qed

text \<open>
  Claim C2 as stated fails when the equal greatest score is not above \<open>-1\<close>: two signatures
  that both score \<open>-1\<close> leave the scan with no signature at all.
\<close>

theorem best_match_tie_below_zero_counterexample:
  "agent_signatures ex_world = [ex_sig_a, ex_sig_b] \<and>
   score_request (ex_env\<lparr>score_request := \<lambda>request s. - 1\<rparr>)
      (make_shim (ex_env\<lparr>score_request := \<lambda>request s. - 1\<rparr>) ex_req) ex_sig_a = - 1 \<and>
   score_request (ex_env\<lparr>score_request := \<lambda>request s. - 1\<rparr>)
      (make_shim (ex_env\<lparr>score_request := \<lambda>request s. - 1\<rparr>) ex_req) ex_sig_b = - 1 \<and>
   best_match (ex_env\<lparr>score_request := \<lambda>request s. - 1\<rparr>) ex_req ex_world = (- 1, None)"
  by (simp add: best_match_def ex_world_def)

end
